theory Spec2Isabelle
  imports Complex_Main "HOL-Library.Sublist"
begin

section \<open>Python values, exceptions and JSON serialisation\<close>

text \<open>
  The AI News Agent is a Python program.  Strings are modelled as \<open>string\<close> (lists of
  characters), Python floats as \<open>real\<close> (rounding is not modelled), datetimes as \<open>int\<close>
  (seconds on one common clock), and every \<open>raise\<close> as the left summand of a sum type.
\<close>

datatype ErrorType =
    NEWS_FETCH_ERROR
  | SUMMARIZATION_ERROR
  | PUBLISHING_ERROR
  | CONFIGURATION_ERROR
  | TIMEOUT_ERROR
  | UNKNOWN_ERROR

fun ErrorType_value :: "ErrorType \<Rightarrow> string" where
  "ErrorType_value NEWS_FETCH_ERROR = ''news_fetch_error''"
| "ErrorType_value SUMMARIZATION_ERROR = ''summarization_error''"
| "ErrorType_value PUBLISHING_ERROR = ''publishing_error''"
| "ErrorType_value CONFIGURATION_ERROR = ''configuration_error''"
| "ErrorType_value TIMEOUT_ERROR = ''timeout_error''"
| "ErrorType_value UNKNOWN_ERROR = ''unknown_error''"

text \<open>
  \<open>WorkflowError message error_type recoverable\<close> is the handler's own exception
  class; \<open>PyException cls message\<close> is any other subclass of Python's \<open>Exception\<close>.
\<close>

datatype exn =
    WorkflowError string ErrorType bool
  | PyException string string

fun exn_str :: "exn \<Rightarrow> string" where
  "exn_str (WorkflowError msg _ _) = msg"
| "exn_str (PyException _ msg) = msg"

text \<open>
  The values handed to \<open>json.dumps\<close>.  \<open>PObj cls\<close> is an instance of class \<open>cls\<close> that the
  default encoder has no rule for (a dataclass instance, a datetime): on it
  \<open>json.dumps\<close> raises \<open>TypeError\<close>.
\<close>

datatype pyval =
    PNone
  | PBool bool
  | PInt int
  | PFloat real
  | PStr string
  | PList "pyval list"
  | PDict "(string \<times> pyval) list"
  | PObj string

fun unserializable :: "pyval \<Rightarrow> string list" where
  "unserializable (PList vs) = concat (map unserializable vs)"
| "unserializable (PDict kvs) = concat (map (\<lambda>kv. unserializable (snd kv)) kvs)"
| "unserializable (PObj cls) = [cls]"
| "unserializable _ = []"

text \<open>
  \<open>json.dumps v\<close>: the text is kept as the structured value it encodes; the call raises
  \<open>TypeError\<close> at the first object without an encoding.
\<close>

definition json_dumps :: "pyval \<Rightarrow> exn + pyval" where
  "json_dumps v =
     (case unserializable v of
        [] \<Rightarrow> Inr v
      | cls # _ \<Rightarrow> Inl (PyException ''TypeError''
                    (''Object of type '' @ cls @ '' is not JSON serializable'')))"

section \<open>String operations\<close>

text \<open>Characters are restricted to ASCII: \<open>str.lower\<close> maps \<open>A\<close>..\<open>Z\<close> to \<open>a\<close>..\<open>z\<close>.\<close>

definition lower_char :: "char \<Rightarrow> char" where
  "lower_char c =
     (if (65::nat) \<le> of_char c \<and> of_char c \<le> (90::nat)
      then char_of (of_char c + (32::nat)) else c)"

definition lower :: "string \<Rightarrow> string" where
  "lower s = map lower_char s"

fun starts_with :: "'a list \<Rightarrow> 'a list \<Rightarrow> bool" where
  "starts_with _ [] = True"
| "starts_with [] (p # ps) = False"
| "starts_with (t # ts) (p # ps) = (t = p \<and> starts_with ts ps)"

text \<open>\<open>contains text pat\<close> is Python's \<open>pat in text\<close> on strings.\<close>

fun contains :: "'a list \<Rightarrow> 'a list \<Rightarrow> bool" where
  "contains [] pat = (pat = [])"
| "contains (t # ts) pat = (starts_with (t # ts) pat \<or> contains ts pat)"

section \<open>NewsArticle\<close>

record NewsArticle =
  title :: string
  content :: string
  url :: string
  published_at :: int
  source :: string
  article_id :: string
  relevance_score :: "real option"

definition default_keywords :: "string list" where
  "default_keywords =
     [''artificial intelligence'', ''ai'', ''machine learning'', ''ml'',
      ''generative ai'', ''chatgpt'', ''gpt'', ''llm'', ''large language model'',
      ''neural network'', ''deep learning'', ''transformer'', ''openai'',
      ''anthropic'', ''claude'', ''gemini'', ''bard'', ''copilot'']"

text \<open>The loop \<open>for keyword in keywords: if keyword.lower() in text: matches += 1\<close>.\<close>

fun count_matches :: "string list \<Rightarrow> string \<Rightarrow> nat \<Rightarrow> nat" where
  "count_matches [] text matches = matches"
| "count_matches (keyword # keywords) text matches =
     count_matches keywords text
       (if contains text (lower keyword) then matches + 1 else matches)"

text \<open>
  \<open>calculate_relevance_score\<close> returns the score and the article with the score stored in
  \<open>relevance_score\<close>.  The argument \<open>None\<close> is the default \<open>keywords=None\<close>.
\<close>

definition calculate_relevance_score ::
  "NewsArticle \<Rightarrow> string list option \<Rightarrow> real \<times> NewsArticle" where
  "calculate_relevance_score self kw =
     (let keywords = (case kw of None \<Rightarrow> default_keywords | Some ks \<Rightarrow> ks);
          text = lower (title self @ '' '' @ content self);
          matches = count_matches keywords text 0;
          total_keywords = length keywords;
          base_score = (if total_keywords > 0 then real matches / real total_keywords else 0);
          title_matches = length (filter (\<lambda>keyword. contains (lower (title self)) (lower keyword)) keywords);
          title_boost = (if total_keywords > 0
                         then (real title_matches / real total_keywords) * (3 / 10) else 0);
          final_score = min (base_score + title_boost) 1
      in (final_score, self\<lparr>relevance_score := Some final_score\<rparr>))"

text \<open>
  \<open>re.findall(r'\w+', text)\<close> on ASCII text: the maximal runs of letters, digits and
  underscores, left to right; \<open>run\<close> is the run being read.
\<close>

definition is_word_char :: "char \<Rightarrow> bool" where
  "is_word_char c =
     (let n = (of_char c :: nat)
      in (48 \<le> n \<and> n \<le> 57) \<or> (65 \<le> n \<and> n \<le> 90) \<or> n = 95 \<or> (97 \<le> n \<and> n \<le> 122))"

fun findall_words :: "string \<Rightarrow> string \<Rightarrow> string list" where
  "findall_words [] run = (if run = [] then [] else [run])"
| "findall_words (c # cs) run =
     (if is_word_char c then findall_words cs (run @ [c])
      else (if run = [] then [] else [run]) @ findall_words cs [])"

definition calculate_similarity :: "string \<Rightarrow> string \<Rightarrow> real" where
  "calculate_similarity text1 text2 =
     (let words1 = set (findall_words (lower text1) []);
          words2 = set (findall_words (lower text2) [])
      in if words1 = {} \<and> words2 = {} then 1
         else if words1 = {} \<or> words2 = {} then 0
         else (let intersection = words1 \<inter> words2;
                   union = words1 \<union> words2
               in if union \<noteq> {} then real (card intersection) / real (card union) else 0))"

definition is_duplicate :: "NewsArticle \<Rightarrow> NewsArticle \<Rightarrow> bool" where
  "is_duplicate self other =
     (if url self = url other then True
      else if calculate_similarity (title self) (title other) > 8 / 10 then True
      else False)"

section \<open>GoogleNewsFetcher: duplicate removal\<close>

text \<open>The inner loop of \<open>_remove_duplicates\<close>, which stops at the first duplicate found.\<close>

fun any_duplicate :: "NewsArticle \<Rightarrow> NewsArticle list \<Rightarrow> bool" where
  "any_duplicate article [] = False"
| "any_duplicate article (existing_article # rest) =
     (if is_duplicate article existing_article then True else any_duplicate article rest)"

text \<open>The outer loop, with its two accumulators \<open>unique_articles\<close> and \<open>seen_urls\<close>.\<close>

fun remove_duplicates_loop ::
  "NewsArticle list \<Rightarrow> NewsArticle list \<Rightarrow> string set \<Rightarrow> NewsArticle list" where
  "remove_duplicates_loop [] unique_articles seen_urls = unique_articles"
| "remove_duplicates_loop (article # articles) unique_articles seen_urls =
     (if url article \<in> seen_urls then remove_duplicates_loop articles unique_articles seen_urls
      else if any_duplicate article unique_articles
           then remove_duplicates_loop articles unique_articles seen_urls
      else remove_duplicates_loop articles (unique_articles @ [article])
             (insert (url article) seen_urls))"

definition remove_duplicates :: "NewsArticle list \<Rightarrow> NewsArticle list" where
  "remove_duplicates articles = remove_duplicates_loop articles [] {}"

section \<open>NewsSummary\<close>

record ArticleSource =
  src_title :: string
  src_url :: string
  src_source :: string
  src_published_at :: int

record NewsSummary =
  summary :: string
  key_points :: "string list"
  sources :: "ArticleSource list"
  generated_at :: int
  article_count :: nat
  summary_id :: string

text \<open>\<open>LambdaHandler._create_simplified_summary\<close>; the identifier is passed on unchanged.\<close>

definition create_simplified_summary :: "NewsSummary \<Rightarrow> NewsSummary" where
  "create_simplified_summary s =
     (let simplified_text = (if length (summary s) > 1000
                             then take 1000 (summary s) @ ''...'' else summary s);
          limited_key_points = take 5 (key_points s);
          limited_sources = take 10 (sources s)
      in \<lparr> summary = simplified_text,
           key_points = limited_key_points,
           sources = limited_sources,
           generated_at = generated_at s,
           article_count = article_count s,
           summary_id = summary_id s \<rparr>)"

section \<open>Rendering a summary as plain text\<close>

definition digit_char :: "nat \<Rightarrow> char" where
  "digit_char d = char_of (48 + d)"

text \<open>\<open>str(n)\<close> for a non-negative integer.\<close>

function str_nat :: "nat \<Rightarrow> string" where
  "str_nat n = (if n < 10 then [digit_char n] else str_nat (n div 10) @ [digit_char (n mod 10)])"
  by pat_completeness auto
termination
  by (relation "measure (\<lambda>n. n)") auto

declare str_nat.simps [simp del]

definition newline :: string where
  "newline = [CHR 0x0A]"

text \<open>
  The Python runtime as far as the handler reads it: the clock (one reading per
  invocation: as ISO text, as a datetime, and the elapsed seconds rounded to two
  decimals) and \<open>datetime.strftime\<close>.
\<close>

record runtime =
  now_iso :: string
  now_utc :: int
  elapsed :: real
  strftime :: "string \<Rightarrow> int \<Rightarrow> string"

text \<open>The loops \<open>for i, point in enumerate(self.key_points, 1)\<close> and the one over the sources.\<close>

fun format_key_points :: "nat \<Rightarrow> string list \<Rightarrow> string" where
  "format_key_points i [] = []"
| "format_key_points i (point # points) =
     str_nat i @ ''. '' @ point @ newline @ format_key_points (i + 1) points"

fun format_sources_plain :: "runtime \<Rightarrow> nat \<Rightarrow> ArticleSource list \<Rightarrow> string" where
  "format_sources_plain rt i [] = []"
| "format_sources_plain rt i (src # srcs) =
     (let formatted_date = strftime rt ''%Y-%m-%d'' (src_published_at src)
      in str_nat i @ ''. '' @ src_title src @ '' - '' @ src_source src
           @ '' ('' @ formatted_date @ '')'' @ newline
           @ ''   '' @ src_url src @ newline @ newline
           @ format_sources_plain rt (i + 1) srcs)"

definition format_for_plain_text :: "runtime \<Rightarrow> NewsSummary \<Rightarrow> string" where
  "format_for_plain_text rt self =
     ''AI News Summary - '' @ strftime rt ''%B %d, %Y'' (generated_at self) @ newline
     @ replicate 50 (CHR ''='') @ newline @ newline
     @ ''Generated at: '' @ strftime rt ''%Y-%m-%d %H:%M:%S UTC'' (generated_at self) @ newline
     @ ''Articles analyzed: '' @ str_nat (article_count self) @ newline @ newline
     @ ''SUMMARY'' @ newline
     @ replicate 20 (CHR ''-'') @ newline
     @ summary self @ newline @ newline
     @ (if key_points self \<noteq> []
        then ''KEY POINTS'' @ newline @ replicate 20 (CHR ''-'') @ newline
             @ format_key_points 1 (key_points self) @ newline
        else [])
     @ (if sources self \<noteq> []
        then ''SOURCES'' @ newline @ replicate 20 (CHR ''-'') @ newline
             @ format_sources_plain rt 1 (sources self)
        else [])"

text \<open>\<open>sep.join(parts)\<close>.\<close>

fun join :: "string \<Rightarrow> string list \<Rightarrow> string" where
  "join sep [] = []"
| "join sep [x] = x"
| "join sep (x # y # ys) = x @ sep @ join sep (y # ys)"

definition article_source_of :: "NewsArticle \<Rightarrow> ArticleSource" where
  "article_source_of article =
     \<lparr> src_title = title article, src_url = url article, src_source = source article,
       src_published_at = published_at article \<rparr>"

section \<open>GoogleNewsFetcher: searching and converting\<close>

text \<open>
  The fetcher object holds the set \<open>self._processed_urls\<close>, created empty by \<open>__init__\<close>.
  \<open>search_calls\<close> counts the calls made so far to the news library's search
  \<open>gnews.get_news\<close>; the outcome of the search is a function \<open>get_news query k\<close> of the
  query and of the number \<open>k\<close> of earlier calls.
\<close>

record fetcher =
  search_calls :: nat
  processed_urls :: "string set"

definition new_fetcher :: fetcher where
  "new_fetcher = \<lparr> search_calls = 0, processed_urls = {} \<rparr>"

text \<open>
  \<open>_fetch_with_retry\<close>: the loop \<open>for attempt in range(max_retries)\<close>.  A non-empty result
  is returned; after an empty result the loop goes on to the next attempt; an exception
  is raised again on the last attempt only.  The result comes with the new call count.
\<close>

function fetch_with_retry_loop ::
  "(string \<Rightarrow> nat \<Rightarrow> exn + 'raw list) \<Rightarrow> string \<Rightarrow> nat \<Rightarrow> nat \<Rightarrow> nat
     \<Rightarrow> (exn + 'raw list) \<times> nat" where
  "fetch_with_retry_loop get_news query max_retries attempt calls =
     (if attempt \<ge> max_retries then (Inr [], calls)
      else
        (case get_news query calls of
           Inr articles \<Rightarrow>
             (if articles \<noteq> [] then (Inr articles, calls + 1)
              else fetch_with_retry_loop get_news query max_retries (attempt + 1) (calls + 1))
         | Inl e \<Rightarrow>
             (if attempt = max_retries - 1 then (Inl e, calls + 1)
              else fetch_with_retry_loop get_news query max_retries (attempt + 1) (calls + 1))))"
  by pat_completeness auto
termination
  by (relation "measure (\<lambda>(get_news, query, max_retries, attempt, calls). max_retries - attempt)")
     auto

declare fetch_with_retry_loop.simps [simp del]

definition fetch_with_retry ::
  "(string \<Rightarrow> nat \<Rightarrow> exn + 'raw list) \<Rightarrow> string \<Rightarrow> nat \<Rightarrow> (exn + 'raw list) \<times> nat" where
  "fetch_with_retry get_news query calls = fetch_with_retry_loop get_news query 3 0 calls"

text \<open>
  \<open>_convert_to_news_articles\<close>.  \<open>create_news_article\<close> stands for \<open>_create_news_article\<close>
  (reading the raw item, fetching the full text, parsing the date, validating): it gives
  the article or \<open>None\<close>.  The loop has the accumulator \<open>articles\<close> and reads and
  updates \<open>self._processed_urls\<close>.
\<close>

fun convert_loop ::
  "('raw \<Rightarrow> NewsArticle option) \<Rightarrow> int \<Rightarrow> 'raw list \<Rightarrow> NewsArticle list \<Rightarrow> string set
     \<Rightarrow> NewsArticle list \<times> string set" where
  "convert_loop create_news_article cutoff_time [] articles purls = (articles, purls)"
| "convert_loop create_news_article cutoff_time (raw_article # rest) articles purls =
     (case create_news_article raw_article of
        None \<Rightarrow> convert_loop create_news_article cutoff_time rest articles purls
      | Some article \<Rightarrow>
          (if published_at article \<le> cutoff_time
           then convert_loop create_news_article cutoff_time rest articles purls
           else if url article \<in> purls
           then convert_loop create_news_article cutoff_time rest articles purls
           else convert_loop create_news_article cutoff_time rest (articles @ [article])
                  (insert (url article) purls)))"

definition convert_to_news_articles ::
  "('raw \<Rightarrow> NewsArticle option) \<Rightarrow> int \<Rightarrow> 'raw list \<Rightarrow> int \<Rightarrow> string set
     \<Rightarrow> NewsArticle list \<times> string set" where
  "convert_to_news_articles create_news_article now raw_articles time_range_hours purls =
     convert_loop create_news_article (now - time_range_hours * 3600) raw_articles [] purls"

text \<open>
  \<open>GoogleNewsFetcher.fetch_news\<close> on the fetcher \<open>self\<close>; \<open>now\<close> is the reading of the
  clock.  An exception of the search is logged and raised again.
\<close>

definition GoogleNewsFetcher_fetch_news ::
  "(string \<Rightarrow> nat \<Rightarrow> exn + 'raw list) \<Rightarrow> ('raw \<Rightarrow> NewsArticle option) \<Rightarrow> int
     \<Rightarrow> string \<Rightarrow> int \<Rightarrow> fetcher \<Rightarrow> (exn + NewsArticle list) \<times> fetcher" where
  "GoogleNewsFetcher_fetch_news get_news create_news_article now query time_range_hours self =
     (case fetch_with_retry get_news query (search_calls self) of
        (Inl e, calls) \<Rightarrow> (Inl e, self\<lparr>search_calls := calls\<rparr>)
      | (Inr raw_articles, calls) \<Rightarrow>
          (if raw_articles = [] then (Inr [], self\<lparr>search_calls := calls\<rparr>)
           else
             (let (articles, purls) =
                    convert_to_news_articles create_news_article now raw_articles
                      time_range_hours (processed_urls self)
              in (Inr articles, \<lparr> search_calls = calls, processed_urls = purls \<rparr>))))"

section \<open>StrandsAISummarizer\<close>

text \<open>
  The summarizer object as far as \<open>generate_summary\<close> reads it.  \<open>agent\<close> is \<open>self.agent\<close>:
  \<open>None\<close> when it is not initialised, otherwise the call \<open>agent.invoke_async(prompt)\<close>,
  which returns the text \<open>response.content\<close> or raises.  The two prompt builders only
  produce the text handed to the agent; \<open>parse_key_points_response\<close> and \<open>str.strip\<close> read
  the agent's answer.  The parser is allowed to raise.  \<open>new_id\<close> is \<open>uuid.uuid4\<close>.
\<close>

record 'w summarizer =
  agent :: "(string \<Rightarrow> 'w \<Rightarrow> (exn + string) \<times> 'w) option"
  create_summarization_prompt :: "string list \<Rightarrow> string"
  create_key_points_prompt :: "string list \<Rightarrow> NewsArticle list \<Rightarrow> string"
  parse_key_points_response :: "string \<Rightarrow> exn + string list"
  strip :: "string \<Rightarrow> string"
  new_id :: "'w \<Rightarrow> string \<times> 'w"

definition prepare_articles_for_summarization :: "runtime \<Rightarrow> NewsArticle list \<Rightarrow> string list" where
  "prepare_articles_for_summarization rt arts =
     map (\<lambda>article.
            ''Title: '' @ title article @ newline
            @ ''Source: '' @ source article @ newline
            @ ''Published: '' @ strftime rt ''%Y-%m-%d'' (published_at article) @ newline
            @ ''Content: '' @ take 2000 (content article) @ ''...'') arts"

definition create_article_sources :: "NewsArticle list \<Rightarrow> ArticleSource list" where
  "create_article_sources arts = map article_source_of arts"

text \<open>
  \<open>_execute_with_retry\<close>: the loop \<open>for attempt in range(max_retries)\<close> with the variable
  \<open>last_exception\<close>.  A rate-limit or model error goes on to the next attempt, any other
  error leaves the loop; after the loop the function raises.
\<close>

definition failed_after :: "nat \<Rightarrow> exn option \<Rightarrow> exn" where
  "failed_after max_retries last_exception =
     PyException ''Exception''
       (''Failed after '' @ str_nat max_retries @ '' attempts: ''
          @ (case last_exception of None \<Rightarrow> ''None'' | Some e \<Rightarrow> exn_str e))"

function execute_with_retry_loop ::
  "(string \<Rightarrow> 'w \<Rightarrow> (exn + string) \<times> 'w) \<Rightarrow> string \<Rightarrow> nat \<Rightarrow> nat \<Rightarrow> exn option \<Rightarrow> 'w
     \<Rightarrow> (exn + string) \<times> 'w" where
  "execute_with_retry_loop func prompt max_retries attempt last_exception w =
     (if attempt \<ge> max_retries then (Inl (failed_after max_retries last_exception), w)
      else
        (case func prompt w of
           (Inr response, w1) \<Rightarrow> (Inr response, w1)
         | (Inl e, w1) \<Rightarrow>
             (let error_msg = lower (exn_str e)
              in if contains error_msg ''rate limit'' \<or> contains error_msg ''throttl''
                 then execute_with_retry_loop func prompt max_retries (attempt + 1) (Some e) w1
                 else if contains error_msg ''model'' \<or> contains error_msg ''bedrock''
                 then execute_with_retry_loop func prompt max_retries (attempt + 1) (Some e) w1
                 else (Inl (failed_after max_retries (Some e)), w1))))"
  by pat_completeness auto
termination
  by (relation "measure (\<lambda>(func, prompt, max_retries, attempt, last_exception, w).
                  max_retries - attempt)") auto

declare execute_with_retry_loop.simps [simp del]

definition execute_with_retry ::
  "(string \<Rightarrow> 'w \<Rightarrow> (exn + string) \<times> 'w) \<Rightarrow> string \<Rightarrow> nat \<Rightarrow> 'w \<Rightarrow> (exn + string) \<times> 'w" where
  "execute_with_retry func prompt max_retries w =
     execute_with_retry_loop func prompt max_retries 0 None w"

definition generate_summary_text ::
  "'w summarizer \<Rightarrow> (string \<Rightarrow> 'w \<Rightarrow> (exn + string) \<times> 'w) \<Rightarrow> string list \<Rightarrow> 'w
     \<Rightarrow> (exn + string) \<times> 'w" where
  "generate_summary_text self invoke_async article_texts w =
     (case execute_with_retry invoke_async (create_summarization_prompt self article_texts) 3 w of
        (Inr response, w1) \<Rightarrow> (Inr (strip self response), w1)
      | (Inl e, w1) \<Rightarrow>
          (Inl (PyException ''Exception'' (''Failed to generate summary text: '' @ exn_str e)), w1))"

definition generate_fallback_key_points :: "NewsArticle list \<Rightarrow> string list" where
  "generate_fallback_key_points arts =
     map (\<lambda>article. title article @ '' - '' @ source article) (take 5 arts)"

definition extract_key_points ::
  "'w summarizer \<Rightarrow> runtime \<Rightarrow> NewsArticle list \<Rightarrow> 'w \<Rightarrow> (exn + string list) \<times> 'w" where
  "extract_key_points self rt arts w =
     (if arts = [] then (Inr [], w)
      else
        (case agent self of
           None \<Rightarrow> (Inl (PyException ''Exception'' ''Strands agent not initialized''), w)
         | Some invoke_async \<Rightarrow>
             (let article_texts = prepare_articles_for_summarization rt arts;
                  prompt = create_key_points_prompt self article_texts arts
              in case execute_with_retry invoke_async prompt 3 w of
                   (Inr response, w1) \<Rightarrow>
                     (case parse_key_points_response self response of
                        Inr points \<Rightarrow> (Inr points, w1)
                      | Inl e \<Rightarrow> (Inr (generate_fallback_key_points arts), w1))
                 | (Inl e, w1) \<Rightarrow> (Inr (generate_fallback_key_points arts), w1))))"

text \<open>\<open>_fallback_summary_generation\<close> uses the articles only.\<close>

definition fallback_summary_generation ::
  "'w summarizer \<Rightarrow> runtime \<Rightarrow> NewsArticle list \<Rightarrow> 'w \<Rightarrow> (exn + NewsSummary) \<times> 'w" where
  "fallback_summary_generation self rt arts w =
     (let summary_parts = map (\<lambda>article. title article @ '' ('' @ source article @ '')'') (take 5 arts);
          key_points_all = map (\<lambda>article. take 100 (title article) @ ''... ('' @ source article @ '')'')
                             (take 5 arts);
          fallback_summary = ''Recent Generative AI developments include: '' @ join ''; '' summary_parts;
          sources_all = create_article_sources arts;
          (sid, w1) = new_id self w
      in (Inr \<lparr> summary = fallback_summary,
                key_points = key_points_all,
                sources = sources_all,
                generated_at = now_utc rt,
                article_count = length arts,
                summary_id = sid \<rparr>, w1))"

text \<open>
  \<open>StrandsAISummarizer.generate_summary\<close>: the two checks, then the \<open>try\<close> block, whose
  \<open>except Exception\<close> clause returns the fallback summary.
\<close>

definition StrandsAISummarizer_generate_summary ::
  "'w summarizer \<Rightarrow> runtime \<Rightarrow> NewsArticle list \<Rightarrow> 'w \<Rightarrow> (exn + NewsSummary) \<times> 'w" where
  "StrandsAISummarizer_generate_summary self rt arts w =
     (if arts = []
      then (Inl (PyException ''ValueError'' ''Cannot generate summary from empty article list''), w)
      else
        (case agent self of
           None \<Rightarrow> (Inl (PyException ''Exception'' ''Strands agent not initialized''), w)
         | Some invoke_async \<Rightarrow>
             (let article_texts = prepare_articles_for_summarization rt arts
              in case generate_summary_text self invoke_async article_texts w of
                   (Inl e, w1) \<Rightarrow> fallback_summary_generation self rt arts w1
                 | (Inr summary_text, w1) \<Rightarrow>
                     (case extract_key_points self rt arts w1 of
                        (Inl e, w2) \<Rightarrow> fallback_summary_generation self rt arts w2
                      | (Inr key_points_found, w2) \<Rightarrow>
                          (let (sid, w3) = new_id self w2
                           in (Inr \<lparr> summary = summary_text,
                                     key_points = key_points_found,
                                     sources = create_article_sources arts,
                                     generated_at = now_utc rt,
                                     article_count = length arts,
                                     summary_id = sid \<rparr>, w3))))))"

section \<open>The Lambda handler\<close>

record AgentConfig =
  search_query :: string
  time_range_hours :: int
  max_articles :: nat
  summary_length :: string

text \<open>
  The three collaborators of the handler (\<open>self.news_fetcher\<close>, \<open>self.ai_summarizer\<close>,
  \<open>self.sns_publisher\<close>) and \<open>uuid.uuid4\<close>, as functions on a state \<open>'w\<close> of the world
  outside the handler.  Each call returns a value or raises.
\<close>

record 'w services =
  fetch_news :: "string \<Rightarrow> int \<Rightarrow> 'w \<Rightarrow> (exn + NewsArticle list) \<times> 'w"
  filter_articles :: "NewsArticle list \<Rightarrow> 'w \<Rightarrow> (exn + NewsArticle list) \<times> 'w"
  generate_summary :: "NewsArticle list \<Rightarrow> 'w \<Rightarrow> (exn + NewsSummary) \<times> 'w"
  publish_summary :: "NewsSummary \<Rightarrow> 'w \<Rightarrow> (exn + bool) \<times> 'w"
  send_no_news_notification :: "'w \<Rightarrow> (exn + bool) \<times> 'w"
  uuid4 :: "'w \<Rightarrow> string \<times> 'w"

record error_entry =
  err_type :: string
  err_message :: string
  err_recoverable :: bool
  err_timestamp :: string

record workflow_state =
  articles_fetched :: bool
  summary_generated :: bool
  summary_published :: bool
  articles :: "NewsArticle list"
  current_summary :: "NewsSummary option"
  errors :: "error_entry list"

definition initial_workflow_state :: workflow_state where
  "initial_workflow_state =
     \<lparr> articles_fetched = False, summary_generated = False, summary_published = False,
       articles = [], current_summary = None, errors = [] \<rparr>"

record response =
  statusCode :: int
  body :: pyval

record event =
  correlation_id :: "string option"

text \<open>
  The workflow-state dictionary as \<open>json.dumps\<close> sees it: the articles are
  \<open>NewsArticle\<close> instances and the summary is a \<open>NewsSummary\<close> instance (or \<open>None\<close>); the
  error entries are dictionaries of strings and a boolean.
\<close>

definition error_entry_value :: "error_entry \<Rightarrow> pyval" where
  "error_entry_value e =
     PDict [(''type'', PStr (err_type e)), (''message'', PStr (err_message e)),
            (''recoverable'', PBool (err_recoverable e)), (''timestamp'', PStr (err_timestamp e))]"

definition workflow_state_value :: "workflow_state \<Rightarrow> pyval" where
  "workflow_state_value ws =
     PDict [(''articles_fetched'', PBool (articles_fetched ws)),
            (''summary_generated'', PBool (summary_generated ws)),
            (''summary_published'', PBool (summary_published ws)),
            (''articles'', PList (map (\<lambda>a. PObj ''NewsArticle'') (articles ws))),
            (''summary'', (case current_summary ws of None \<Rightarrow> PNone | Some s \<Rightarrow> PObj ''NewsSummary'')),
            (''errors'', PList (map error_entry_value (errors ws)))]"

definition create_success_response ::
  "AgentConfig \<Rightarrow> runtime \<Rightarrow> string \<Rightarrow> string \<Rightarrow> string option \<Rightarrow> nat option
     \<Rightarrow> workflow_state option \<Rightarrow> exn + response" where
  "create_success_response cfg rt message corr summary_id_opt article_count_opt ws_opt =
     (let response_body =
            [(''message'', PStr message),
             (''timestamp'', PStr (now_iso rt)),
             (''correlation_id'', PStr corr),
             (''execution_time_seconds'', PFloat (elapsed rt)),
             (''config'', PDict [(''search_query'', PStr (search_query cfg)),
                                (''time_range_hours'', PInt (time_range_hours cfg)),
                                (''max_articles'', PInt (int (max_articles cfg))),
                                (''summary_length'', PStr (summary_length cfg))])]
            @ (case summary_id_opt of
                 Some sid \<Rightarrow> (if sid \<noteq> [] then [(''summary_id'', PStr sid)] else [])
               | None \<Rightarrow> [])
            @ (case article_count_opt of
                 Some n \<Rightarrow> [(''article_count'', PInt (int n))]
               | None \<Rightarrow> [])
            @ (case ws_opt of
                 Some ws \<Rightarrow> [(''workflow_state'', workflow_state_value ws)]
               | None \<Rightarrow> [])
      in case json_dumps (PDict response_body) of
           Inl e \<Rightarrow> Inl e
         | Inr text \<Rightarrow> Inr \<lparr> statusCode = 200, body = text \<rparr>)"

definition create_partial_success_response ::
  "runtime \<Rightarrow> string \<Rightarrow> string \<Rightarrow> workflow_state \<Rightarrow> exn + response" where
  "create_partial_success_response rt message corr ws =
     (case json_dumps (PDict
             [(''message'', PStr message),
              (''timestamp'', PStr (now_iso rt)),
              (''correlation_id'', PStr corr),
              (''execution_time_seconds'', PFloat (elapsed rt)),
              (''workflow_state'', workflow_state_value ws),
              (''status'', PStr ''partial_success'')]) of
        Inl e \<Rightarrow> Inl e
      | Inr text \<Rightarrow> Inr \<lparr> statusCode = 206, body = text \<rparr>)"

definition create_error_response ::
  "runtime \<Rightarrow> string \<Rightarrow> string \<Rightarrow> string option \<Rightarrow> workflow_state option
     \<Rightarrow> exn + response" where
  "create_error_response rt error_message corr error_type_opt ws_opt =
     (let response_body =
            [(''error'', PStr ''Internal server error''),
             (''message'', PStr error_message),
             (''timestamp'', PStr (now_iso rt)),
             (''correlation_id'', PStr corr),
             (''execution_time_seconds'', PFloat (elapsed rt))]
            @ (case error_type_opt of
                 Some t \<Rightarrow> (if t \<noteq> [] then [(''error_type'', PStr t)] else [])
               | None \<Rightarrow> [])
            @ (case ws_opt of
                 Some ws \<Rightarrow> [(''workflow_state'', workflow_state_value ws)]
               | None \<Rightarrow> [])
      in case json_dumps (PDict response_body) of
           Inl e \<Rightarrow> Inl e
         | Inr text \<Rightarrow> Inr \<lparr> statusCode = 500, body = text \<rparr>)"

text \<open>
  \<open>_fetch_news_articles_with_recovery\<close>: the loop \<open>for attempt in range(max_retries)\<close>.
  The sleeps between attempts take time only and are left out.
\<close>

definition max_retries :: nat where
  "max_retries = 3"

function fetch_news_articles_loop ::
  "'w services \<Rightarrow> AgentConfig \<Rightarrow> nat \<Rightarrow> 'w \<Rightarrow> (exn + NewsArticle list) \<times> 'w" where
  "fetch_news_articles_loop svc cfg attempt w =
     (if attempt \<ge> max_retries then (Inr [], w)
      else
        (case fetch_news svc (search_query cfg) (time_range_hours cfg) w of
           (Inr raw_articles, w1) \<Rightarrow>
             (if raw_articles = [] then (Inr [], w1)
              else
                (case filter_articles svc raw_articles w1 of
                   (Inr filtered_articles, w2) \<Rightarrow>
                     (Inr (if length filtered_articles > max_articles cfg
                           then take (max_articles cfg) filtered_articles
                           else filtered_articles), w2)
                 | (Inl e, w2) \<Rightarrow>
                     (if attempt = max_retries - 1
                      then (Inl (WorkflowError
                                   (''News fetching failed after '' @ str_nat max_retries
                                      @ '' attempts: '' @ exn_str e)
                                   NEWS_FETCH_ERROR False), w2)
                      else fetch_news_articles_loop svc cfg (attempt + 1) w2)))
         | (Inl e, w1) \<Rightarrow>
             (if attempt = max_retries - 1
              then (Inl (WorkflowError
                           (''News fetching failed after '' @ str_nat max_retries
                              @ '' attempts: '' @ exn_str e)
                           NEWS_FETCH_ERROR False), w1)
              else fetch_news_articles_loop svc cfg (attempt + 1) w1)))"
  by pat_completeness auto
termination
  by (relation "measure (\<lambda>(svc, cfg, attempt, w). max_retries - attempt)")
     (auto simp: max_retries_def)

declare fetch_news_articles_loop.simps [simp del]

definition fetch_news_articles_with_recovery ::
  "'w services \<Rightarrow> AgentConfig \<Rightarrow> 'w \<Rightarrow> (exn + NewsArticle list) \<times> 'w" where
  "fetch_news_articles_with_recovery svc cfg w = fetch_news_articles_loop svc cfg 0 w"

text \<open>
  \<open>_handle_no_news_scenario_with_recovery\<close>: two attempts to send the notification.
  Every exception is caught inside; the function returns \<open>None\<close> whether or not a
  notification was sent.
\<close>

function no_news_loop :: "'w services \<Rightarrow> nat \<Rightarrow> 'w \<Rightarrow> 'w" where
  "no_news_loop svc attempt w =
     (if attempt \<ge> 2 then w
      else
        (case send_no_news_notification svc w of
           (Inr success, w1) \<Rightarrow> (if success then w1 else no_news_loop svc (attempt + 1) w1)
         | (Inl e, w1) \<Rightarrow> no_news_loop svc (attempt + 1) w1))"
  by pat_completeness auto
termination
  by (relation "measure (\<lambda>(svc, attempt, w). 2 - attempt)") auto

declare no_news_loop.simps [simp del]

definition handle_no_news_scenario_with_recovery :: "'w services \<Rightarrow> 'w \<Rightarrow> 'w" where
  "handle_no_news_scenario_with_recovery svc w = no_news_loop svc 0 w"

text \<open>
  \<open>_generate_fallback_summary\<close> works on local data only; the new summary takes a fresh
  identifier from \<open>uuid4\<close>.
\<close>

definition generate_fallback_summary ::
  "'w services \<Rightarrow> runtime \<Rightarrow> NewsArticle list \<Rightarrow> 'w \<Rightarrow> (exn + NewsSummary) \<times> 'w" where
  "generate_fallback_summary svc rt arts w =
     (let first10 = take 10 arts;
          summary_parts = map (\<lambda>article. title article @ '' ('' @ source article @ '')'') first10;
          key_points_all = map (\<lambda>article. take 100 (title article)
                                   @ (if length (title article) > 100 then ''...'' else [])) first10;
          sources_all = map article_source_of first10;
          fallback_summary_text =
            ''Recent Generative AI developments from '' @ str_nat (length arts)
              @ '' sources include: '' @ join ''; '' (take 5 summary_parts)
              @ (if length arts > 5
                 then '' and '' @ str_nat (length arts - 5) @ '' more articles.'' else []);
          (new_id, w1) = uuid4 svc w
      in (Inr \<lparr> summary = fallback_summary_text,
                key_points = take 8 key_points_all,
                sources = sources_all,
                generated_at = now_utc rt,
                article_count = length arts,
                summary_id = new_id \<rparr>, w1))"

definition generate_summary_with_recovery ::
  "'w services \<Rightarrow> runtime \<Rightarrow> NewsArticle list \<Rightarrow> 'w \<Rightarrow> (exn + NewsSummary) \<times> 'w" where
  "generate_summary_with_recovery svc rt arts w =
     (case generate_summary svc arts w of
        (Inr s, w1) \<Rightarrow> (Inr s, w1)
      | (Inl e, w1) \<Rightarrow>
          (case generate_fallback_summary svc rt arts w1 of
             (Inr s, w2) \<Rightarrow> (Inr s, w2)
           | (Inl fallback_error, w2) \<Rightarrow>
               (Inl (WorkflowError
                       (''Summary generation failed: Primary error: '' @ exn_str e
                          @ '', Fallback error: '' @ exn_str fallback_error)
                       SUMMARIZATION_ERROR False), w2)))"

definition publish_summary_with_recovery ::
  "'w services \<Rightarrow> NewsSummary \<Rightarrow> 'w \<Rightarrow> bool \<times> 'w" where
  "publish_summary_with_recovery svc s w =
     (case publish_summary svc s w of
        (Inr success, w1) \<Rightarrow> (if success then (True, w1) else (False, w1))
      | (Inl e, w1) \<Rightarrow> (False, w1))"

text \<open>
  \<open>_attempt_fallback_publishing\<close>: first the simplified summary, then a minimal summary
  built from the plain-text rendering.  An exception in either attempt is logged and the
  next step follows.
\<close>

definition attempt_fallback_publishing ::
  "'w services \<Rightarrow> runtime \<Rightarrow> NewsSummary \<Rightarrow> 'w \<Rightarrow> bool \<times> 'w" where
  "attempt_fallback_publishing svc rt s w =
     (let simplified_summary = create_simplified_summary s;
          (r1, w1) = publish_summary svc simplified_summary w
      in if r1 = Inr True then (True, w1)
         else
           (let plain_text = format_for_plain_text rt s;
                (new_id, w2) = uuid4 svc w1;
                minimal_summary =
                  \<lparr> summary = (if length plain_text > 500
                                then take 500 plain_text @ ''...'' else plain_text),
                    key_points = take 3 (key_points s),
                    sources = take 5 (sources s),
                    generated_at = generated_at s,
                    article_count = article_count s,
                    summary_id = new_id \<rparr>;
                (r2, w3) = publish_summary svc minimal_summary w2
            in if r2 = Inr True then (True, w3) else (False, w3)))"

text \<open>
  \<open>_handle_workflow_error\<close>, for a \<open>WorkflowError\<close> with the given message, type and
  recoverable flag.  It returns the response (or raises), the workflow state after the
  append, and the world.
\<close>

definition handle_workflow_error ::
  "'w services \<Rightarrow> runtime \<Rightarrow> string \<Rightarrow> ErrorType \<Rightarrow> bool \<Rightarrow> string \<Rightarrow> workflow_state
     \<Rightarrow> 'w \<Rightarrow> (exn + response) \<times> workflow_state \<times> 'w" where
  "handle_workflow_error svc rt msg error_type recoverable corr ws w =
     (let ws1 = ws\<lparr>errors := errors ws @
                   [\<lparr> err_type = ErrorType_value error_type, err_message = msg,
                      err_recoverable = recoverable, err_timestamp = now_iso rt \<rparr>]\<rparr>
      in if error_type = NEWS_FETCH_ERROR \<and> \<not> recoverable
         then
           (let w1 = handle_no_news_scenario_with_recovery svc w
            in case create_partial_success_response rt
                      ''News fetching failed, sent no-news notification'' corr ws1 of
                 Inr resp \<Rightarrow> (Inr resp, ws1, w1)
               | Inl e \<Rightarrow>
                   (create_error_response rt msg corr (Some (ErrorType_value error_type))
                      (Some ws1), ws1, w1))
         else (create_error_response rt msg corr (Some (ErrorType_value error_type))
                 (Some ws1), ws1, w))"

definition handle_unexpected_error ::
  "runtime \<Rightarrow> exn \<Rightarrow> string \<Rightarrow> workflow_state \<Rightarrow> (exn + response) \<times> workflow_state" where
  "handle_unexpected_error rt error corr ws =
     (let ws1 = ws\<lparr>errors := errors ws @
                   [\<lparr> err_type = ErrorType_value UNKNOWN_ERROR, err_message = exn_str error,
                      err_recoverable = False, err_timestamp = now_iso rt \<rparr>]\<rparr>
      in (create_error_response rt (''Unexpected error: '' @ exn_str error) corr
            (Some (ErrorType_value UNKNOWN_ERROR)) (Some ws1), ws1))"

text \<open>
  The \<open>try\<close> block of \<open>handler\<close>.  Besides the response (or the exception raised) it
  returns the successive values of the workflow-state dictionary, one entry for each
  assignment in program order, starting with the dictionary as created.
\<close>

definition handler_try ::
  "'w services \<Rightarrow> AgentConfig \<Rightarrow> runtime \<Rightarrow> string \<Rightarrow> 'w
     \<Rightarrow> (exn + response) \<times> workflow_state list \<times> 'w" where
  "handler_try svc cfg rt corr w =
     (let ws0 = initial_workflow_state
      in case fetch_news_articles_with_recovery svc cfg w of
           (Inl e, w1) \<Rightarrow> (Inl e, [ws0], w1)
         | (Inr arts, w1) \<Rightarrow>
             (let ws1 = ws0\<lparr>articles := arts\<rparr>;
                  ws2 = ws1\<lparr>articles_fetched := True\<rparr>
              in if arts = []
                 then
                   (let w2 = handle_no_news_scenario_with_recovery svc w1
                    in (create_success_response cfg rt
                          ''No relevant news found - notification sent'' corr None None (Some ws2),
                        [ws0, ws1, ws2], w2))
                 else
                   (case generate_summary_with_recovery svc rt arts w1 of
                      (Inl e, w2) \<Rightarrow> (Inl e, [ws0, ws1, ws2], w2)
                    | (Inr s, w2) \<Rightarrow>
                        (let ws3 = ws2\<lparr>current_summary := Some s\<rparr>;
                             ws4 = ws3\<lparr>summary_generated := True\<rparr>;
                             (publish_success, w3) = publish_summary_with_recovery svc s w2;
                             ws5 = ws4\<lparr>summary_published := publish_success\<rparr>
                         in if \<not> publish_success
                            then
                              (let (fallback_success, w4) = attempt_fallback_publishing svc rt s w3;
                                   ws6 = ws5\<lparr>summary_published := fallback_success\<rparr>
                               in if \<not> fallback_success
                                  then (create_partial_success_response rt
                                          ''Summary generated but publishing failed'' corr ws6,
                                        [ws0, ws1, ws2, ws3, ws4, ws5, ws6], w4)
                                  else (create_success_response cfg rt
                                          ''AI News Agent executed successfully'' corr
                                          (Some (summary_id s)) (Some (length arts)) (Some ws6),
                                        [ws0, ws1, ws2, ws3, ws4, ws5, ws6], w4))
                            else (create_success_response cfg rt
                                    ''AI News Agent executed successfully'' corr
                                    (Some (summary_id s)) (Some (length arts)) (Some ws5),
                                  [ws0, ws1, ws2, ws3, ws4, ws5], w3)))))"

text \<open>
  \<open>handler\<close>: the \<open>try\<close> block, then \<open>except WorkflowError\<close> and \<open>except Exception\<close>.  An
  exception raised inside an \<open>except\<close> clause leaves the handler.
\<close>

definition handler_run ::
  "'w services \<Rightarrow> AgentConfig \<Rightarrow> string \<Rightarrow> runtime \<Rightarrow> event \<Rightarrow> 'w
     \<Rightarrow> (exn + response) \<times> workflow_state list \<times> 'w" where
  "handler_run svc cfg execution_id rt ev w =
     (let corr = (case correlation_id ev of Some c \<Rightarrow> c | None \<Rightarrow> execution_id)
      in case handler_try svc cfg rt corr w of
           (Inr resp, trace, w1) \<Rightarrow> (Inr resp, trace, w1)
         | (Inl (WorkflowError msg error_type recoverable), trace, w1) \<Rightarrow>
             (case handle_workflow_error svc rt msg error_type recoverable corr (last trace) w1 of
                (r, ws', w2) \<Rightarrow> (r, trace @ [ws'], w2))
         | (Inl (PyException cls msg), trace, w1) \<Rightarrow>
             (case handle_unexpected_error rt (PyException cls msg) corr (last trace) of
                (r, ws') \<Rightarrow> (r, trace @ [ws'], w1)))"

definition handler ::
  "'w services \<Rightarrow> AgentConfig \<Rightarrow> string \<Rightarrow> runtime \<Rightarrow> event \<Rightarrow> 'w \<Rightarrow> exn + response" where
  "handler svc cfg execution_id rt ev w = fst (handler_run svc cfg execution_id rt ev w)"

section \<open>Scripted collaborators\<close>

text \<open>The outcome of each call of a collaborator is given by its position.\<close>

record mock_world =
  fetch_calls :: nat
  filter_calls :: nat
  summarize_calls :: nat
  publish_calls :: nat
  notify_calls :: nat
  uuid_calls :: nat

record script =
  fetch_outcome :: "nat \<Rightarrow> exn + NewsArticle list"
  filter_outcome :: "nat \<Rightarrow> NewsArticle list \<Rightarrow> exn + NewsArticle list"
  summarize_outcome :: "nat \<Rightarrow> NewsArticle list \<Rightarrow> exn + NewsSummary"
  publish_outcome :: "nat \<Rightarrow> NewsSummary \<Rightarrow> exn + bool"
  notify_outcome :: "nat \<Rightarrow> exn + bool"

definition mock_services :: "script \<Rightarrow> mock_world services" where
  "mock_services sc =
     \<lparr> fetch_news = (\<lambda>q h w. (fetch_outcome sc (fetch_calls w), w\<lparr>fetch_calls := fetch_calls w + 1\<rparr>)),
       filter_articles = (\<lambda>arts w. (filter_outcome sc (filter_calls w) arts,
                                      w\<lparr>filter_calls := filter_calls w + 1\<rparr>)),
       generate_summary = (\<lambda>arts w. (summarize_outcome sc (summarize_calls w) arts,
                                       w\<lparr>summarize_calls := summarize_calls w + 1\<rparr>)),
       publish_summary = (\<lambda>s w. (publish_outcome sc (publish_calls w) s,
                                   w\<lparr>publish_calls := publish_calls w + 1\<rparr>)),
       send_no_news_notification = (\<lambda>w. (notify_outcome sc (notify_calls w),
                                          w\<lparr>notify_calls := notify_calls w + 1\<rparr>)),
       uuid4 = (\<lambda>w. (''uuid-'' @ str_nat (uuid_calls w), w\<lparr>uuid_calls := uuid_calls w + 1\<rparr>)) \<rparr>"

definition mock_world0 :: mock_world where
  "mock_world0 =
     \<lparr> fetch_calls = 0, filter_calls = 0, summarize_calls = 0, publish_calls = 0,
       notify_calls = 0, uuid_calls = 0 \<rparr>"

section \<open>Observations on a run\<close>

text \<open>The status code of a response; \<open>None\<close> when the handler raised.\<close>

definition status_of :: "exn + response \<Rightarrow> int option" where
  "status_of r = (case r of Inl e \<Rightarrow> None | Inr resp \<Rightarrow> Some (statusCode resp))"

text \<open>The exception \<open>json.dumps\<close> raises on an instance of class \<open>cls\<close>.\<close>

definition type_error :: "string \<Rightarrow> exn" where
  "type_error cls =
     PyException ''TypeError'' (''Object of type '' @ cls @ '' is not JSON serializable'')"

text \<open>
  \<open>state_evolves a b\<close>: going from the workflow state \<open>a\<close> to \<open>b\<close>, no completion flag
  is reset and the error list is only extended at its end.
\<close>

definition state_evolves :: "workflow_state \<Rightarrow> workflow_state \<Rightarrow> bool" where
  "state_evolves a b =
     ((articles_fetched a \<longrightarrow> articles_fetched b)
      \<and> (summary_generated a \<longrightarrow> summary_generated b)
      \<and> (summary_published a \<longrightarrow> summary_published b)
      \<and> prefix (errors a) (errors b))"

section \<open>Example data\<close>

definition example_article :: "string \<Rightarrow> string \<Rightarrow> NewsArticle" where
  "example_article t u =
     \<lparr> title = t, content = ''ChatGPT update'', url = u, published_at = 100,
       source = ''Wire'', article_id = u, relevance_score = None \<rparr>"

definition example_summary :: "string \<Rightarrow> NewsSummary" where
  "example_summary txt =
     \<lparr> summary = txt, key_points = [''k1'', ''k2'', ''k3'', ''k4'', ''k5'', ''k6''],
       sources = [], generated_at = 100, article_count = 1, summary_id = ''s-1'' \<rparr>"

definition example_config :: AgentConfig where
  "example_config =
     \<lparr> search_query = ''Generative AI'', time_range_hours = 72, max_articles = 50,
       summary_length = ''medium'' \<rparr>"

definition example_runtime :: runtime where
  "example_runtime =
     \<lparr> now_iso = ''2024-01-01T00:00:00+00:00'', now_utc = 1000, elapsed = 1 / 4,
       strftime = (\<lambda>fmt t. ''2024-01-01'') \<rparr>"

definition example_event :: event where
  "example_event = \<lparr> correlation_id = Some ''test-correlation-123'' \<rparr>"

text \<open>One relevant article is fetched, the summarizer and the publisher succeed.\<close>

definition success_script :: script where
  "success_script =
     \<lparr> fetch_outcome = (\<lambda>k. Inr [example_article ''AI News'' ''https://a.example/1'']),
       filter_outcome = (\<lambda>k arts. Inr arts),
       summarize_outcome = (\<lambda>k arts. Inr (example_summary ''Summary text'')),
       publish_outcome = (\<lambda>k s. Inr True),
       notify_outcome = (\<lambda>k. Inr True) \<rparr>"

text \<open>As before, but every call of the publisher returns \<open>False\<close>.\<close>

definition publish_failure_script :: script where
  "publish_failure_script = success_script\<lparr> publish_outcome := (\<lambda>k s. Inr False) \<rparr>"

text \<open>Every fetch raises and every no-news notification returns \<open>False\<close>.\<close>

definition fetch_failure_script :: script where
  "fetch_failure_script =
     \<lparr> fetch_outcome = (\<lambda>k. Inl (PyException ''ConnectionError'' ''news source unavailable'')),
       filter_outcome = (\<lambda>k arts. Inr arts),
       summarize_outcome = (\<lambda>k arts. Inr (example_summary ''Summary text'')),
       publish_outcome = (\<lambda>k s. Inr True),
       notify_outcome = (\<lambda>k. Inr False) \<rparr>"

text \<open>The first fetch raises, the second returns no articles.\<close>

definition fetch_retry_script :: script where
  "fetch_retry_script =
     \<lparr> fetch_outcome = (\<lambda>k. if k = 0 then Inl (PyException ''Exception'' ''Network timeout'')
                              else Inr []),
       filter_outcome = (\<lambda>k arts. Inr []),
       summarize_outcome = (\<lambda>k arts. Inr (example_summary ''Summary text'')),
       publish_outcome = (\<lambda>k s. Inr True),
       notify_outcome = (\<lambda>k. Inr True) \<rparr>"

text \<open>
  A search that raises on the first call, finds nothing on the second and finds one
  article on every later call.  The raw items are the articles themselves.
\<close>

definition example_get_news :: "string \<Rightarrow> nat \<Rightarrow> exn + NewsArticle list" where
  "example_get_news query k =
     (if k = 0 then Inl (PyException ''Exception'' ''Network timeout'')
      else if k = 1 then Inr []
      else Inr [example_article ''AI News'' ''https://a.example/1''])"

text \<open>A search that finds the same article on every call.\<close>

definition steady_get_news :: "string \<Rightarrow> nat \<Rightarrow> exn + NewsArticle list" where
  "steady_get_news query k = Inr [example_article ''AI News'' ''https://a.example/1'']"

text \<open>A summarizer whose agent is throttled on every call, and one whose agent answers.\<close>

definition throttled_summarizer :: "mock_world summarizer" where
  "throttled_summarizer =
     \<lparr> agent = Some (\<lambda>prompt w. (Inl (PyException ''ThrottlingException'' ''Rate limit exceeded''),
                                    w\<lparr>summarize_calls := summarize_calls w + 1\<rparr>)),
       create_summarization_prompt = (\<lambda>texts. ''Summarize''),
       create_key_points_prompt = (\<lambda>texts arts. ''Key points''),
       parse_key_points_response = (\<lambda>response. Inr [response]),
       strip = (\<lambda>s. s),
       new_id = (\<lambda>w. (''uuid-'' @ str_nat (uuid_calls w), w\<lparr>uuid_calls := uuid_calls w + 1\<rparr>)) \<rparr>"

definition answering_summarizer :: "mock_world summarizer" where
  "answering_summarizer =
     throttled_summarizer
       \<lparr> agent := Some (\<lambda>prompt w. (Inr ''Answer'', w\<lparr>summarize_calls := summarize_calls w + 1\<rparr>)) \<rparr>"

section \<open>Relevance scoring\<close>

lemma count_matches_eq:
  "count_matches ks text m = m + length (filter (\<lambda>k. contains text (lower k)) ks)"
  by (induction ks arbitrary: m) auto

lemma calculate_relevance_score_Some:
  assumes "V \<noteq> []"
  shows "fst (calculate_relevance_score a (Some V)) =
           min (real (length (filter (\<lambda>k. contains (lower (title a @ '' '' @ content a)) (lower k)) V))
                  / real (length V)
                + (real (length (filter (\<lambda>k. contains (lower (title a)) (lower k)) V))
                     / real (length V)) * (3 / 10)) 1
         \<and> 0 \<le> fst (calculate_relevance_score a (Some V))
         \<and> fst (calculate_relevance_score a (Some V)) \<le> 1
         \<and> relevance_score (snd (calculate_relevance_score a (Some V)))
             = Some (fst (calculate_relevance_score a (Some V)))
         \<and> calculate_relevance_score (snd (calculate_relevance_score a (Some V))) (Some V)
             = calculate_relevance_score a (Some V)"
  using assms by (simp add: calculate_relevance_score_def Let_def count_matches_eq)

text \<open>
  Claim C6.  Let \<open>V\<close> be the vocabulary of a call of \<open>calculate_relevance_score\<close>: the
  keyword list passed, or, in the default call \<open>keywords=None\<close> (the only form the
  fetcher and \<open>is_relevant\<close> use), the eighteen built-in AI terms.  For every article, if
  \<open>V\<close> is not empty the call returns \<open>min (matches / |V| + (titleMatches / |V|) * 0.3) 1\<close>,
  where \<open>matches\<close> counts the keywords whose lower-case form occurs in the lower-cased
  text \<open>title + " " + content\<close> and \<open>titleMatches\<close> those occurring in the lower-cased
  title; the score lies between 0 and 1; the score is stored in the article; and a
  second call with the same keywords, on the article as the first call left it, returns
  the same score.
\<close>

theorem calculate_relevance_score_formula:
  assumes "V = (case kw of
                  None \<Rightarrow>
                    [''artificial intelligence'', ''ai'', ''machine learning'', ''ml'',
                 ''generative ai'', ''chatgpt'', ''gpt'', ''llm'', ''large language model'',
                 ''neural network'', ''deep learning'', ''transformer'', ''openai'',
                 ''anthropic'', ''claude'', ''gemini'', ''bard'', ''copilot'']
                | Some ks \<Rightarrow> ks)"
    and "V \<noteq> []"
  shows "fst (calculate_relevance_score a kw) =
           min (real (length (filter (\<lambda>k. contains (lower (title a @ '' '' @ content a)) (lower k)) V))
                  / real (length V)
                + (real (length (filter (\<lambda>k. contains (lower (title a)) (lower k)) V))
                     / real (length V)) * (3 / 10)) 1
         \<and> 0 \<le> fst (calculate_relevance_score a kw)
         \<and> fst (calculate_relevance_score a kw) \<le> 1
         \<and> relevance_score (snd (calculate_relevance_score a kw))
             = Some (fst (calculate_relevance_score a kw))
         \<and> calculate_relevance_score (snd (calculate_relevance_score a kw)) kw
             = calculate_relevance_score a kw"
proof -
  define W where "W = (case kw of None \<Rightarrow> default_keywords | Some ks \<Rightarrow> ks)"
  have VW: "V = W"
    using assms(1) by (cases kw) (simp_all add: W_def default_keywords_def)
  have eq: "calculate_relevance_score b kw = calculate_relevance_score b (Some W)" for b
    by (cases kw) (simp_all add: W_def calculate_relevance_score_def)
  from assms(2) VW have "W \<noteq> []" by simp
  from calculate_relevance_score_Some [OF this, of a] show ?thesis
    unfolding eq VW by simp
qed

theorem calculate_relevance_score_formula_witness:
  "fst (calculate_relevance_score (example_article ''AI News'' ''https://a.example/1'') (Some [''ai'', ''gpt'', ''llm''])) = 23 / 30
   \<and> fst (calculate_relevance_score (example_article ''AI News'' ''https://a.example/1'') None) = 11 / 60"
proof -
  have m: "length (filter (\<lambda>k. contains (lower (title (example_article ''AI News'' ''https://a.example/1'')
              @ '' '' @ content (example_article ''AI News'' ''https://a.example/1''))) (lower k))
              [''ai'', ''gpt'', ''llm'']) = 2"
    by code_simp
  have t: "length (filter (\<lambda>k. contains (lower (title (example_article ''AI News'' ''https://a.example/1'')))
              (lower k)) [''ai'', ''gpt'', ''llm'']) = 1"
    by code_simp
  have m': "length (filter (\<lambda>k. contains (lower (title (example_article ''AI News'' ''https://a.example/1'')
              @ '' '' @ content (example_article ''AI News'' ''https://a.example/1''))) (lower k))
              [''artificial intelligence'', ''ai'', ''machine learning'', ''ml'',
                 ''generative ai'', ''chatgpt'', ''gpt'', ''llm'', ''large language model'',
                 ''neural network'', ''deep learning'', ''transformer'', ''openai'',
                 ''anthropic'', ''claude'', ''gemini'', ''bard'', ''copilot'']) = 3"
    by code_simp
  have t': "length (filter (\<lambda>k. contains (lower (title (example_article ''AI News'' ''https://a.example/1'')))
              (lower k))
              [''artificial intelligence'', ''ai'', ''machine learning'', ''ml'',
                 ''generative ai'', ''chatgpt'', ''gpt'', ''llm'', ''large language model'',
                 ''neural network'', ''deep learning'', ''transformer'', ''openai'',
                 ''anthropic'', ''claude'', ''gemini'', ''bard'', ''copilot'']) = 1"
    by code_simp
  from calculate_relevance_score_formula
         [where V = "[''ai'', ''gpt'', ''llm'']" and kw = "Some [''ai'', ''gpt'', ''llm'']"
            and a = "example_article ''AI News'' ''https://a.example/1''"]
  have 1: "fst (calculate_relevance_score (example_article ''AI News'' ''https://a.example/1'') (Some [''ai'', ''gpt'', ''llm''])) = 23 / 30"
    unfolding m t by simp
  from calculate_relevance_score_formula
         [where V = "[''artificial intelligence'', ''ai'', ''machine learning'', ''ml'',
                 ''generative ai'', ''chatgpt'', ''gpt'', ''llm'', ''large language model'',
                 ''neural network'', ''deep learning'', ''transformer'', ''openai'',
                 ''anthropic'', ''claude'', ''gemini'', ''bard'', ''copilot'']"
            and kw = None and a = "example_article ''AI News'' ''https://a.example/1''"]
  have 2: "fst (calculate_relevance_score (example_article ''AI News'' ''https://a.example/1'') None) = 11 / 60"
    unfolding m' t' by simp
  from 1 2 show ?thesis by simp
qed

section \<open>Duplicate removal\<close>

lemma any_duplicate_iff: "any_duplicate a us = (\<exists>e \<in> set us. is_duplicate a e)"
  by (induction us) auto

lemma is_duplicate_same_url: "url a = url e \<Longrightarrow> is_duplicate a e"
  by (simp add: is_duplicate_def)

lemma remove_duplicates_loop_snoc:
  "seen = url ` set uniq \<Longrightarrow>
   remove_duplicates_loop (xs @ [a]) uniq seen =
     (let r = remove_duplicates_loop xs uniq seen
      in if any_duplicate a r then r else r @ [a])"
proof (induction xs arbitrary: uniq seen)
  case Nil
  then show ?case by (auto simp: any_duplicate_iff Let_def intro: is_duplicate_same_url)
next
  case (Cons x xs)
  show ?case
  proof (cases "url x \<in> seen \<or> any_duplicate x uniq")
    case True
    then show ?thesis using Cons.IH[OF Cons.prems] by auto
  next
    case False
    have "insert (url x) seen = url ` set (uniq @ [x])" using Cons.prems by auto
    from Cons.IH[OF this] False show ?thesis by simp
  qed
qed

lemma remove_duplicates_snoc:
  "remove_duplicates (xs @ [a]) =
     (if any_duplicate a (remove_duplicates xs) then remove_duplicates xs
      else remove_duplicates xs @ [a])"
  using remove_duplicates_loop_snoc[of "{}" "[]" xs a] by (simp add: remove_duplicates_def Let_def)

lemma remove_duplicates_Nil: "remove_duplicates [] = []"
  by (simp add: remove_duplicates_def)

lemma remove_duplicates_subseq: "subseq (remove_duplicates xs) xs"
proof (induction xs rule: rev_induct)
  case Nil
  show ?case by (simp add: remove_duplicates_Nil)
next
  case (snoc a xs)
  then show ?case
    by (auto simp: remove_duplicates_snoc intro: subseq_rev_drop_many list_emb_append_mono)
qed

lemma remove_duplicates_idem: "remove_duplicates (remove_duplicates xs) = remove_duplicates xs"
proof (induction xs rule: rev_induct)
  case Nil
  show ?case by (simp add: remove_duplicates_Nil)
next
  case (snoc a xs)
  show ?case
  proof (cases "any_duplicate a (remove_duplicates xs)")
    case True
    then show ?thesis using snoc by (simp add: remove_duplicates_snoc)
  next
    case False
    then have "remove_duplicates (xs @ [a]) = remove_duplicates xs @ [a]"
      by (simp add: remove_duplicates_snoc)
    moreover have "remove_duplicates (remove_duplicates xs @ [a]) = remove_duplicates xs @ [a]"
      using False snoc by (simp add: remove_duplicates_snoc)
    ultimately show ?thesis by simp
  qed
qed

text \<open>
  Claim C7.  For every list of articles \<open>L\<close>, \<open>_remove_duplicates\<close> is idempotent, never
  lengthens the list, and keeps the input order with the first occurrence winning: the
  result is a subsequence of \<open>L\<close>, and an article appended to \<open>L\<close> is dropped exactly
  when it is a duplicate of an article already kept from \<open>L\<close>, and is otherwise kept
  at the end.
\<close>

theorem remove_duplicates_properties:
  "remove_duplicates (remove_duplicates L) = remove_duplicates L
   \<and> length (remove_duplicates L) \<le> length L
   \<and> subseq (remove_duplicates L) L
   \<and> remove_duplicates (L @ [a]) =
       (if any_duplicate a (remove_duplicates L) then remove_duplicates L
        else remove_duplicates L @ [a])"
  using remove_duplicates_idem [of L] remove_duplicates_subseq [of L]
        remove_duplicates_snoc [of L a] list_emb_length [of "(=)" "remove_duplicates L" L]
  by simp

theorem remove_duplicates_properties_witness:
  "remove_duplicates
     [example_article ''OpenAI ships GPT'' ''https://a.example/1'',
      example_article ''Other story'' ''https://a.example/1'',
      example_article ''openai SHIPS gpt!'' ''https://a.example/2'',
      example_article ''Gemini update'' ''https://a.example/3'']
   = [example_article ''OpenAI ships GPT'' ''https://a.example/1'',
      example_article ''Gemini update'' ''https://a.example/3'']
   \<and> remove_duplicates
       [example_article ''OpenAI ships GPT'' ''https://a.example/1'',
        example_article ''Gemini update'' ''https://a.example/3'']
     = [example_article ''OpenAI ships GPT'' ''https://a.example/1'',
        example_article ''Gemini update'' ''https://a.example/3'']"
proof -
  have e: "remove_duplicates
     [example_article ''OpenAI ships GPT'' ''https://a.example/1'',
      example_article ''Other story'' ''https://a.example/1'',
      example_article ''openai SHIPS gpt!'' ''https://a.example/2'',
      example_article ''Gemini update'' ''https://a.example/3'']
   = [example_article ''OpenAI ships GPT'' ''https://a.example/1'',
      example_article ''Gemini update'' ''https://a.example/3'']"
    by code_simp
  from remove_duplicates_properties
    [of "[example_article ''OpenAI ships GPT'' ''https://a.example/1'',
          example_article ''Other story'' ''https://a.example/1'',
          example_article ''openai SHIPS gpt!'' ''https://a.example/2'',
          example_article ''Gemini update'' ''https://a.example/3'']"]
  show ?thesis unfolding e by simp
qed

section \<open>Simplified summaries\<close>

text \<open>
  Claim C5, as amended.  For every summary, the simplified variant keeps the narrative
  unchanged when it has at most 1000 characters and otherwise replaces it by its first
  1000 characters followed by the three-character ellipsis; it keeps the first five key
  points and the first ten sources, and passes the time stamp, the article count and
  the identifier on unchanged.  So it never has more key points or more sources than
  the input; its narrative is never more than two characters longer than the input's,
  is never longer at all unless the input narrative has 1001 or 1002 characters, and
  has 1003 characters in those two cases.
\<close>

theorem create_simplified_summary_bounds:
  "summary (create_simplified_summary s) =
     (if length (summary s) > 1000 then take 1000 (summary s) @ ''...'' else summary s)
   \<and> key_points (create_simplified_summary s) = take 5 (key_points s)
   \<and> sources (create_simplified_summary s) = take 10 (sources s)
   \<and> generated_at (create_simplified_summary s) = generated_at s
   \<and> article_count (create_simplified_summary s) = article_count s
   \<and> summary_id (create_simplified_summary s) = summary_id s
   \<and> length (key_points (create_simplified_summary s)) \<le> length (key_points s)
   \<and> length (sources (create_simplified_summary s)) \<le> length (sources s)
   \<and> length (summary (create_simplified_summary s)) \<le> length (summary s) + 2
   \<and> (length (summary s) \<noteq> 1001 \<and> length (summary s) \<noteq> 1002 \<longrightarrow>
        length (summary (create_simplified_summary s)) \<le> length (summary s))
   \<and> (length (summary s) = 1001 \<or> length (summary s) = 1002 \<longrightarrow>
        length (summary (create_simplified_summary s)) = 1003)"
  by (simp add: create_simplified_summary_def Let_def)

theorem create_simplified_summary_bounds_witness:
  "length (summary (example_summary (replicate 1200 (CHR ''a'')))) \<noteq> 1001
   \<and> length (summary (example_summary (replicate 1200 (CHR ''a'')))) \<noteq> 1002
   \<and> summary (create_simplified_summary (example_summary (replicate 1200 (CHR ''a''))))
       = replicate 1000 (CHR ''a'') @ ''...''
   \<and> length (summary (create_simplified_summary (example_summary (replicate 1200 (CHR ''a'')))))
       \<le> length (summary (example_summary (replicate 1200 (CHR ''a''))))
   \<and> key_points (create_simplified_summary (example_summary (replicate 1200 (CHR ''a''))))
       = [''k1'', ''k2'', ''k3'', ''k4'', ''k5'']
   \<and> length (summary (example_summary (replicate 1002 (CHR ''a'')))) = 1002
   \<and> length (summary (create_simplified_summary (example_summary (replicate 1002 (CHR ''a'')))))
       = 1003"
  using create_simplified_summary_bounds [of "example_summary (replicate 1200 (CHR ''a''))"]
        create_simplified_summary_bounds [of "example_summary (replicate 1002 (CHR ''a''))"]
  by (simp add: example_summary_def)

text \<open>
  The claim as first stated fails: a narrative of 1001 characters is cut to 1000 and
  the ellipsis brings it to 1003.
\<close>

theorem create_simplified_summary_longer_counterexample:
  "length (summary (create_simplified_summary (example_summary (replicate 1001 (CHR ''a'')))))
     > length (summary (example_summary (replicate 1001 (CHR ''a''))))"
  by (simp add: create_simplified_summary_def example_summary_def)

section \<open>Responses and JSON serialisation\<close>

lemma unserializable_errors: "concat (map (\<lambda>e. unserializable (error_entry_value e)) es) = []"
  by (induction es) (auto simp: error_entry_value_def)

lemma unserializable_workflow_state:
  "unserializable (workflow_state_value ws) =
     replicate (length (articles ws)) ''NewsArticle''
     @ (case current_summary ws of None \<Rightarrow> [] | Some s \<Rightarrow> [''NewsSummary''])"
  by (simp add: workflow_state_value_def unserializable_errors comp_def map_replicate_const
           split: option.split)

lemma success_response_raises:
  "articles ws \<noteq> [] \<Longrightarrow>
   create_success_response cfg rt m corr sid cnt (Some ws) = Inl (type_error ''NewsArticle'')"
  by (cases "articles ws")
     (simp_all add: create_success_response_def json_dumps_def unserializable_workflow_state
           type_error_def split: option.split)

lemma partial_response_raises:
  "articles ws \<noteq> [] \<Longrightarrow>
   create_partial_success_response rt m corr ws = Inl (type_error ''NewsArticle'')"
  by (cases "articles ws")
     (simp_all add: create_partial_success_response_def json_dumps_def
           unserializable_workflow_state type_error_def)

lemma error_response_raises:
  "articles ws \<noteq> [] \<Longrightarrow>
   create_error_response rt m corr et (Some ws) = Inl (type_error ''NewsArticle'')"
  by (cases "articles ws")
     (simp_all add: create_error_response_def json_dumps_def unserializable_workflow_state
           type_error_def split: option.split)

lemma success_response_ok:
  "articles ws = [] \<Longrightarrow> current_summary ws = None \<Longrightarrow>
   status_of (create_success_response cfg rt m corr sid cnt (Some ws)) = Some 200"
  by (simp add: create_success_response_def json_dumps_def unserializable_workflow_state
           status_of_def split: option.split)

lemma partial_response_ok:
  "articles ws = [] \<Longrightarrow> current_summary ws = None \<Longrightarrow>
   create_partial_success_response rt m corr ws =
     Inr \<lparr> statusCode = 206,
           body = PDict [(''message'', PStr m), (''timestamp'', PStr (now_iso rt)),
                         (''correlation_id'', PStr corr),
                         (''execution_time_seconds'', PFloat (elapsed rt)),
                         (''workflow_state'', workflow_state_value ws),
                         (''status'', PStr ''partial_success'')] \<rparr>"
  by (simp add: create_partial_success_response_def json_dumps_def unserializable_workflow_state)

lemma handle_workflow_error_raises:
  "articles ws \<noteq> [] \<Longrightarrow>
   fst (handle_workflow_error svc rt m et rc corr ws w) = Inl (type_error ''NewsArticle'')"
  by (simp add: handle_workflow_error_def Let_def partial_response_raises error_response_raises
        type_error_def)

lemma handle_unexpected_error_raises:
  "articles ws \<noteq> [] \<Longrightarrow>
   fst (handle_unexpected_error rt e corr ws) = Inl (type_error ''NewsArticle'')"
  by (simp add: handle_unexpected_error_def Let_def error_response_raises)

lemma handler_try_articles:
  assumes f: "fetch_news_articles_with_recovery svc cfg w = (Inr arts, w1)" and ne: "arts \<noteq> []"
  shows "\<exists>e. fst (handler_try svc cfg rt corr w) = Inl e"
    and "articles (last (fst (snd (handler_try svc cfg rt corr w)))) = arts"
proof -
  obtain r2 w2 where g: "generate_summary_with_recovery svc rt arts w1 = (r2, w2)"
    by (cases "generate_summary_with_recovery svc rt arts w1") auto
  show "\<exists>e. fst (handler_try svc cfg rt corr w) = Inl e"
    using ne
    by (cases r2)
       (auto simp: handler_try_def f g Let_def success_response_raises partial_response_raises
             split: prod.splits)
  show "articles (last (fst (snd (handler_try svc cfg rt corr w)))) = arts"
    using ne
    by (cases r2) (auto simp: handler_try_def f g Let_def split: prod.splits)
qed

text \<open>
  Whenever the fetch step yields at least one article, the handler ends by raising the
  \<open>TypeError\<close> of \<open>json.dumps\<close>, whatever the collaborators do afterwards: every response
  builder serialises the workflow state, which holds the \<open>NewsArticle\<close> objects, and so do
  the two \<open>except\<close> clauses.
\<close>

lemma handler_raises_when_articles_found:
  assumes "fst (fetch_news_articles_with_recovery svc cfg w) = Inr arts" and "arts \<noteq> []"
  shows "handler svc cfg xid rt ev w = Inl (type_error ''NewsArticle'')"
proof -
  obtain w1 where f: "fetch_news_articles_with_recovery svc cfg w = (Inr arts, w1)"
    using assms(1) by (cases "fetch_news_articles_with_recovery svc cfg w") auto
  define corr where "corr = (case correlation_id ev of Some c \<Rightarrow> c | None \<Rightarrow> xid)"
  obtain r tr w' where t: "handler_try svc cfg rt corr w = (r, tr, w')"
    by (cases "handler_try svc cfg rt corr w") auto
  from handler_try_articles[OF f assms(2), of rt corr] t
  obtain e where r: "r = Inl e" and a: "articles (last tr) \<noteq> []"
    using assms(2) by auto
  show ?thesis
  proof (cases e)
    case (WorkflowError m et rc)
    with r t a handle_workflow_error_raises[of "last tr" svc rt m et rc corr w'] show ?thesis
      by (auto simp: handler_def handler_run_def corr_def[symmetric] split: prod.splits)
  next
    case (PyException c m)
    with r t a handle_unexpected_error_raises[of "last tr" rt "PyException c m" corr] show ?thesis
      by (auto simp: handler_def handler_run_def corr_def[symmetric] split: prod.splits)
  qed
qed

lemmas mock_eval =
  mock_services_def mock_world0_def fetch_news_articles_with_recovery_def
  fetch_news_articles_loop.simps max_retries_def handle_no_news_scenario_with_recovery_def
  no_news_loop.simps generate_summary_with_recovery_def publish_summary_with_recovery_def
  attempt_fallback_publishing_def Let_def

section \<open>The handler's responses\<close>

text \<open>
  Claim C1 (the handler always returns a response with status 200, 206 or 500 and never
  lets an exception reach its caller, also where the body serialises the workflow
  state) fails on the plain success path.  One article is fetched, the summary is
  generated and the first publish call succeeds; the handler then raises the
  \<open>TypeError\<close> of \<open>json.dumps\<close> on the \<open>NewsArticle\<close> object in the workflow state, and
  the \<open>except Exception\<close> clause raises it again while building the error response.
\<close>

theorem handler_success_path_raises:
  "handler (mock_services success_script) example_config ''exec-1'' example_runtime
     example_event mock_world0
     = Inl (PyException ''TypeError'' ''Object of type NewsArticle is not JSON serializable'')
   \<and> status_of (handler (mock_services success_script) example_config ''exec-1''
         example_runtime example_event mock_world0) = None
   \<and> publish_calls (snd (snd (handler_run (mock_services success_script) example_config
         ''exec-1'' example_runtime example_event mock_world0))) = 1"
  by (simp add: handler_def handler_run_def handler_try_def mock_eval success_script_def
        example_config_def success_response_raises error_response_raises type_error_def
        handle_unexpected_error_def status_of_def)

text \<open>
  Claim C3 (a summary is generated, the primary publish call and both fallback publish
  calls fail: the handler answers 206 with \<open>summary_published = False\<close>) fails for the
  same reason.  The publisher is called three times and returns \<open>False\<close> each time; the
  partial-success response cannot be serialised, and the handler raises \<open>TypeError\<close>
  instead of returning status 206.
\<close>

theorem handler_publish_failure_raises:
  "handler (mock_services publish_failure_script) example_config ''exec-1'' example_runtime
     example_event mock_world0
     = Inl (PyException ''TypeError'' ''Object of type NewsArticle is not JSON serializable'')
   \<and> status_of (handler (mock_services publish_failure_script) example_config ''exec-1''
         example_runtime example_event mock_world0) = None
   \<and> publish_calls (snd (snd (handler_run (mock_services publish_failure_script) example_config
         ''exec-1'' example_runtime example_event mock_world0))) = 3"
  by (simp add: handler_def handler_run_def handler_try_def mock_eval success_script_def
        publish_failure_script_def
        example_config_def partial_response_raises error_response_raises type_error_def
        handle_unexpected_error_def status_of_def)

text \<open>
  Claim C4 (after an irrecoverable fetch failure the handler attempts the no-news
  notification and answers with partial success if that recovery succeeds, else with an
  error response) fails when the notification fails.  Every fetch raises and both
  notification attempts return \<open>False\<close>; \<open>_handle_no_news_scenario_with_recovery\<close> returns
  normally all the same, and the handler answers 206 instead of the error response 500.
\<close>

theorem handler_fetch_failure_notification_failure:
  "status_of (handler (mock_services fetch_failure_script) example_config ''exec-1''
      example_runtime example_event mock_world0) = Some 206
   \<and> fetch_calls (snd (snd (handler_run (mock_services fetch_failure_script) example_config
         ''exec-1'' example_runtime example_event mock_world0))) = 3
   \<and> notify_calls (snd (snd (handler_run (mock_services fetch_failure_script) example_config
         ''exec-1'' example_runtime example_event mock_world0))) = 2
   \<and> notify_outcome fetch_failure_script 0 = Inr False
   \<and> notify_outcome fetch_failure_script 1 = Inr False"
  by (simp add: handler_def handler_run_def handler_try_def mock_eval fetch_failure_script_def
        example_config_def partial_response_ok initial_workflow_state_def
        handle_workflow_error_def status_of_def)

section \<open>Evolution of the workflow state\<close>

lemma state_evolves_refl: "state_evolves a a"
  by (simp add: state_evolves_def)

lemma state_evolves_trans: "state_evolves a b \<Longrightarrow> state_evolves b c \<Longrightarrow> state_evolves a c"
  by (auto simp: state_evolves_def)

lemma state_evolves_append_error:
  "state_evolves a (a\<lparr>errors := errors a @ [e]\<rparr>)"
  by (simp add: state_evolves_def)

lemma sorted_wrt_to_last:
  "sorted_wrt state_evolves tr \<Longrightarrow> x \<in> set tr \<Longrightarrow> state_evolves x (last tr)"
proof (induction tr)
  case Nil
  then show ?case by simp
next
  case (Cons y ys)
  then show ?case
    by (cases "ys = []") (auto simp: state_evolves_refl)
qed

lemma sorted_wrt_snoc_last:
  assumes "sorted_wrt state_evolves tr" and "state_evolves (last tr) y"
  shows "sorted_wrt state_evolves (tr @ [y])"
  using assms sorted_wrt_to_last[OF assms(1)]
  by (auto simp: sorted_wrt_append intro: state_evolves_trans)

lemma handler_try_trace:
  "sorted_wrt state_evolves (fst (snd (handler_try svc cfg rt corr w)))
   \<and> fst (snd (handler_try svc cfg rt corr w)) \<noteq> []
   \<and> hd (fst (snd (handler_try svc cfg rt corr w))) = initial_workflow_state"
  by (auto simp: handler_try_def Let_def state_evolves_def initial_workflow_state_def
           split: prod.splits sum.splits)

lemma handle_workflow_error_state:
  "state_evolves ws (fst (snd (handle_workflow_error svc rt m et rc corr ws w)))"
  by (auto simp: handle_workflow_error_def Let_def state_evolves_def split: sum.splits)

lemma handle_unexpected_error_state:
  "state_evolves ws (snd (handle_unexpected_error rt e corr ws))"
  by (simp add: handle_unexpected_error_def Let_def state_evolves_def)

text \<open>
  Claim C9.  The handler's trace lists the workflow state as created and after every
  assignment to it, in program order, including the append made by the \<open>except\<close>
  clauses.  For every behaviour of the collaborators and every event, the trace starts
  with the initial state, and for any two states of the trace, the later one has every
  completion flag set that the earlier one has set, and its error list extends the
  earlier one's at the end.
\<close>

theorem workflow_state_monotonic:
  "sorted_wrt state_evolves (fst (snd (handler_run svc cfg execution_id rt ev w)))
   \<and> fst (snd (handler_run svc cfg execution_id rt ev w)) \<noteq> []
   \<and> hd (fst (snd (handler_run svc cfg execution_id rt ev w))) = initial_workflow_state"
proof -
  define corr where "corr = (case correlation_id ev of Some c \<Rightarrow> c | None \<Rightarrow> execution_id)"
  obtain r tr w1 where t: "handler_try svc cfg rt corr w = (r, tr, w1)"
    by (cases "handler_try svc cfg rt corr w") auto
  from handler_try_trace[of svc cfg rt corr w] t
  have s: "sorted_wrt state_evolves tr" and ne: "tr \<noteq> []" and h: "hd tr = initial_workflow_state"
    by simp_all
  show ?thesis
  proof (cases r)
    case (Inr resp)
    with t s ne h show ?thesis
      by (simp add: handler_run_def corr_def[symmetric])
  next
    case (Inl e)
    show ?thesis
    proof (cases e)
      case (WorkflowError m et rc)
      obtain r2 ws' w2 where hw:
        "handle_workflow_error svc rt m et rc corr (last tr) w1 = (r2, ws', w2)"
        by (cases "handle_workflow_error svc rt m et rc corr (last tr) w1") auto
      from handle_workflow_error_state[of "last tr" svc rt m et rc corr w1] hw
      have "state_evolves (last tr) ws'" by simp
      from sorted_wrt_snoc_last[OF s this] ne h Inl WorkflowError t hw show ?thesis
        by (simp add: handler_run_def corr_def[symmetric])
    next
      case (PyException c m)
      obtain r2 ws' where hu:
        "handle_unexpected_error rt (PyException c m) corr (last tr) = (r2, ws')"
        by (cases "handle_unexpected_error rt (PyException c m) corr (last tr)") auto
      from handle_unexpected_error_state[of "last tr" rt "PyException c m" corr] hu
      have "state_evolves (last tr) ws'" by simp
      from sorted_wrt_snoc_last[OF s this] ne h Inl PyException t hu show ?thesis
        by (simp add: handler_run_def corr_def[symmetric])
    qed
  qed
qed

theorem workflow_state_monotonic_witness:
  "sorted_wrt state_evolves
     (fst (snd (handler_run (mock_services publish_failure_script) example_config ''exec-1''
        example_runtime example_event mock_world0)))
   \<and> length (fst (snd (handler_run (mock_services publish_failure_script) example_config ''exec-1''
        example_runtime example_event mock_world0))) = 8
   \<and> articles_fetched (last (fst (snd (handler_run (mock_services publish_failure_script)
        example_config ''exec-1'' example_runtime example_event mock_world0))))
   \<and> summary_generated (last (fst (snd (handler_run (mock_services publish_failure_script)
        example_config ''exec-1'' example_runtime example_event mock_world0))))
   \<and> length (errors (last (fst (snd (handler_run (mock_services publish_failure_script)
        example_config ''exec-1'' example_runtime example_event mock_world0))))) = 1"
  using workflow_state_monotonic [of "mock_services publish_failure_script" example_config
          "''exec-1''" example_runtime example_event mock_world0]
  by (simp add: handler_run_def handler_try_def mock_eval success_script_def
        publish_failure_script_def example_config_def partial_response_raises
        handle_unexpected_error_def type_error_def state_evolves_def
        initial_workflow_state_def)

section \<open>Empty fetch results\<close>

lemma fetch_with_retry_unfold:
  "fetch_with_retry get_news query c =
     (case get_news query c of
        Inr (x # xs) \<Rightarrow> (Inr (x # xs), c + 1)
      | _ \<Rightarrow>
          (case get_news query (c + 1) of
             Inr (x # xs) \<Rightarrow> (Inr (x # xs), c + 2)
           | _ \<Rightarrow>
               (case get_news query (c + 2) of
                  Inr found \<Rightarrow> (Inr found, c + 3)
                | Inl e \<Rightarrow> (Inl e, c + 3))))"
  by (simp add: fetch_with_retry_def fetch_with_retry_loop.simps [of _ _ 3] add.assoc
           split: sum.splits list.splits)

lemma no_news_loop_mock:
  "fetch_calls (no_news_loop (mock_services sc) 0 w) = fetch_calls w
   \<and> summarize_calls (no_news_loop (mock_services sc) 0 w) = summarize_calls w
   \<and> notify_calls (no_news_loop (mock_services sc) 0 w) > notify_calls w"
  by (simp add: no_news_loop.simps mock_services_def split: sum.splits)

lemma handler_no_news_after_empty_fetch:
  assumes "fetch_news_articles_with_recovery (mock_services sc) cfg mock_world0 = (Inr [], w1)"
  shows "status_of (handler (mock_services sc) cfg xid rt ev mock_world0) = Some 200
         \<and> fetch_calls (snd (snd (handler_run (mock_services sc) cfg xid rt ev mock_world0)))
             = fetch_calls w1
         \<and> summarize_calls (snd (snd (handler_run (mock_services sc) cfg xid rt ev mock_world0)))
             = summarize_calls w1
         \<and> notify_calls (snd (snd (handler_run (mock_services sc) cfg xid rt ev mock_world0)))
             > notify_calls w1"
proof -
  define corr where "corr = (case correlation_id ev of Some c \<Rightarrow> c | None \<Rightarrow> xid)"
  define ws2 where "ws2 = initial_workflow_state\<lparr>articles := [], articles_fetched := True\<rparr>"
  define w2 where "w2 = no_news_loop (mock_services sc) 0 w1"
  have ok: "status_of (create_success_response cfg rt
              ''No relevant news found - notification sent'' corr None None (Some ws2)) = Some 200"
    by (rule success_response_ok) (simp_all add: ws2_def initial_workflow_state_def)
  then obtain resp where resp: "create_success_response cfg rt
              ''No relevant news found - notification sent'' corr None None (Some ws2) = Inr resp"
       and st: "statusCode resp = 200"
    by (auto simp: status_of_def split: sum.splits)
  have t: "handler_try (mock_services sc) cfg rt corr mock_world0
             = (Inr resp, [initial_workflow_state, initial_workflow_state\<lparr>articles := []\<rparr>, ws2], w2)"
    by (simp add: handler_try_def assms Let_def resp[unfolded ws2_def] ws2_def w2_def
          handle_no_news_scenario_with_recovery_def)
  have run: "handler_run (mock_services sc) cfg xid rt ev mock_world0
             = (Inr resp, [initial_workflow_state, initial_workflow_state\<lparr>articles := []\<rparr>, ws2], w2)"
    by (simp add: handler_run_def corr_def[symmetric] t)
  from no_news_loop_mock[of sc w1] show ?thesis
    by (simp add: handler_def run status_of_def st w2_def)
qed

text \<open>
  Claim C2, as amended.  At the level of the handler, an empty result of the fetcher's
  \<open>fetch_news\<close> is a valid outcome that is neither retried nor an error: if the first
  call returns no articles, or if the first call raises and the second returns no
  articles, the handler takes the no-news path (status 200, at least one notification
  attempt, no summarization) and \<open>fetch_news\<close> has been called exactly once, respectively
  exactly twice.  Inside \<open>fetch_news\<close>, however, an empty result of the library search is
  retried like a failure: \<open>_fetch_with_retry\<close> returns the first non-empty result among
  up to three searches, and the outcome of the third search otherwise.  So after an
  empty search result a further search is always made; three empty results give the
  empty list after three searches; and when the first search raises and the second
  finds nothing, the search is made three times.
\<close>

theorem empty_fetch_result_handling:
  "(fetch_outcome sc 0 = Inr [] \<longrightarrow>
      status_of (handler (mock_services sc) cfg xid rt ev mock_world0) = Some 200
      \<and> fetch_calls (snd (snd (handler_run (mock_services sc) cfg xid rt ev mock_world0))) = 1
      \<and> summarize_calls (snd (snd (handler_run (mock_services sc) cfg xid rt ev mock_world0))) = 0
      \<and> notify_calls (snd (snd (handler_run (mock_services sc) cfg xid rt ev mock_world0))) \<ge> 1)
   \<and> ((\<exists>e. fetch_outcome sc 0 = Inl e) \<and> fetch_outcome sc 1 = Inr [] \<longrightarrow>
      status_of (handler (mock_services sc) cfg xid rt ev mock_world0) = Some 200
      \<and> fetch_calls (snd (snd (handler_run (mock_services sc) cfg xid rt ev mock_world0))) = 2
      \<and> summarize_calls (snd (snd (handler_run (mock_services sc) cfg xid rt ev mock_world0))) = 0
      \<and> notify_calls (snd (snd (handler_run (mock_services sc) cfg xid rt ev mock_world0))) \<ge> 1)
   \<and> fetch_with_retry get_news query c =
       (case get_news query c of
          Inr (x # xs) \<Rightarrow> (Inr (x # xs), c + 1)
        | _ \<Rightarrow>
            (case get_news query (c + 1) of
               Inr (x # xs) \<Rightarrow> (Inr (x # xs), c + 2)
             | _ \<Rightarrow>
                 (case get_news query (c + 2) of
                    Inr found \<Rightarrow> (Inr found, c + 3)
                  | Inl e \<Rightarrow> (Inl e, c + 3))))
   \<and> (get_news query c = Inr [] \<longrightarrow> snd (fetch_with_retry get_news query c) \<ge> c + 2)
   \<and> (get_news query c = Inr [] \<and> get_news query (c + 1) = Inr []
        \<and> get_news query (c + 2) = Inr [] \<longrightarrow>
        fetch_with_retry get_news query c = (Inr [], c + 3))
   \<and> ((\<exists>e. get_news query c = Inl e) \<and> get_news query (c + 1) = Inr [] \<longrightarrow>
        snd (fetch_with_retry get_news query c) = c + 3)"
proof -
  have a: "fetch_outcome sc 0 = Inr [] \<Longrightarrow>
      fetch_news_articles_with_recovery (mock_services sc) cfg mock_world0
        = (Inr [], mock_world0\<lparr>fetch_calls := 1\<rparr>)"
    by (simp add: fetch_news_articles_with_recovery_def fetch_news_articles_loop.simps
          max_retries_def mock_services_def mock_world0_def)
  have b: "fetch_outcome sc 0 = Inl e \<Longrightarrow> fetch_outcome sc 1 = Inr [] \<Longrightarrow>
      fetch_news_articles_with_recovery (mock_services sc) cfg mock_world0
        = (Inr [], mock_world0\<lparr>fetch_calls := 2\<rparr>)" for e
    by (simp add: fetch_news_articles_with_recovery_def fetch_news_articles_loop.simps
          max_retries_def mock_services_def mock_world0_def)
  have 1: "fetch_outcome sc 0 = Inr [] \<longrightarrow>
      status_of (handler (mock_services sc) cfg xid rt ev mock_world0) = Some 200
      \<and> fetch_calls (snd (snd (handler_run (mock_services sc) cfg xid rt ev mock_world0))) = 1
      \<and> summarize_calls (snd (snd (handler_run (mock_services sc) cfg xid rt ev mock_world0))) = 0
      \<and> notify_calls (snd (snd (handler_run (mock_services sc) cfg xid rt ev mock_world0))) \<ge> 1"
  proof
    assume h: "fetch_outcome sc 0 = Inr []"
    from handler_no_news_after_empty_fetch[OF a[OF h], where xid = xid and rt = rt and ev = ev]
    show "status_of (handler (mock_services sc) cfg xid rt ev mock_world0) = Some 200
      \<and> fetch_calls (snd (snd (handler_run (mock_services sc) cfg xid rt ev mock_world0))) = 1
      \<and> summarize_calls (snd (snd (handler_run (mock_services sc) cfg xid rt ev mock_world0))) = 0
      \<and> notify_calls (snd (snd (handler_run (mock_services sc) cfg xid rt ev mock_world0))) \<ge> 1"
      by (simp add: mock_world0_def)
  qed
  have 2: "(\<exists>e. fetch_outcome sc 0 = Inl e) \<and> fetch_outcome sc 1 = Inr [] \<longrightarrow>
      status_of (handler (mock_services sc) cfg xid rt ev mock_world0) = Some 200
      \<and> fetch_calls (snd (snd (handler_run (mock_services sc) cfg xid rt ev mock_world0))) = 2
      \<and> summarize_calls (snd (snd (handler_run (mock_services sc) cfg xid rt ev mock_world0))) = 0
      \<and> notify_calls (snd (snd (handler_run (mock_services sc) cfg xid rt ev mock_world0))) \<ge> 1"
  proof
    assume "(\<exists>e. fetch_outcome sc 0 = Inl e) \<and> fetch_outcome sc 1 = Inr []"
    then obtain e where h1: "fetch_outcome sc 0 = Inl e" and h2: "fetch_outcome sc 1 = Inr []"
      by auto
    from handler_no_news_after_empty_fetch[OF b[OF h1 h2], where xid = xid and rt = rt and ev = ev]
    show "status_of (handler (mock_services sc) cfg xid rt ev mock_world0) = Some 200
      \<and> fetch_calls (snd (snd (handler_run (mock_services sc) cfg xid rt ev mock_world0))) = 2
      \<and> summarize_calls (snd (snd (handler_run (mock_services sc) cfg xid rt ev mock_world0))) = 0
      \<and> notify_calls (snd (snd (handler_run (mock_services sc) cfg xid rt ev mock_world0))) \<ge> 1"
      by (simp add: mock_world0_def)
  qed
  have 3: "get_news query c = Inr [] \<longrightarrow> snd (fetch_with_retry get_news query c) \<ge> c + 2"
    by (auto simp: fetch_with_retry_unfold split: sum.splits list.splits)
  have 4: "get_news query c = Inr [] \<and> get_news query (c + 1) = Inr []
        \<and> get_news query (c + 2) = Inr [] \<longrightarrow>
        fetch_with_retry get_news query c = (Inr [], c + 3)"
    by (auto simp: fetch_with_retry_unfold)
  have 5: "(\<exists>e. get_news query c = Inl e) \<and> get_news query (c + 1) = Inr [] \<longrightarrow>
        snd (fetch_with_retry get_news query c) = c + 3"
    by (auto simp: fetch_with_retry_unfold split: sum.splits list.splits)
  from 1 2 3 4 5 fetch_with_retry_unfold[of get_news query c] show ?thesis
    by (intro conjI)
qed

theorem empty_fetch_result_handling_witness:
  "fetch_outcome (fetch_retry_script\<lparr>fetch_outcome := (\<lambda>k. Inr [])\<rparr>) 0 = Inr []
   \<and> fetch_calls (snd (snd (handler_run
        (mock_services (fetch_retry_script\<lparr>fetch_outcome := (\<lambda>k. Inr [])\<rparr>))
        example_config ''exec-1'' example_runtime example_event mock_world0))) = 1
   \<and> (\<exists>e. fetch_outcome fetch_retry_script 0 = Inl e)
   \<and> fetch_outcome fetch_retry_script 1 = Inr []
   \<and> status_of (handler (mock_services fetch_retry_script) example_config ''exec-1''
        example_runtime example_event mock_world0) = Some 200
   \<and> fetch_calls (snd (snd (handler_run (mock_services fetch_retry_script) example_config
        ''exec-1'' example_runtime example_event mock_world0))) = 2
   \<and> fetch_with_retry (\<lambda>q k. (Inr [] :: exn + NewsArticle list)) ''Generative AI'' 0 = (Inr [], 3)
   \<and> (\<exists>e. example_get_news ''Generative AI'' 0 = Inl e)
   \<and> example_get_news ''Generative AI'' 1 = Inr []
   \<and> snd (fetch_with_retry example_get_news ''Generative AI'' 0) = 3"
  using empty_fetch_result_handling
          [where sc = "fetch_retry_script\<lparr>fetch_outcome := (\<lambda>k. Inr [])\<rparr>"
             and cfg = example_config and xid = "''exec-1''" and rt = example_runtime
             and ev = example_event and get_news = "\<lambda>q k. (Inr [] :: exn + NewsArticle list)"
             and query = "''Generative AI''" and c = 0]
        empty_fetch_result_handling
          [where sc = fetch_retry_script and cfg = example_config and xid = "''exec-1''"
             and rt = example_runtime and ev = example_event and get_news = example_get_news
             and query = "''Generative AI''" and c = 0]
  by (simp add: fetch_retry_script_def example_get_news_def)

text \<open>
  The claim as first stated fails for the search inside \<open>fetch_news\<close>: the first search
  raises and the second finds nothing, yet a third search is made, and \<open>fetch_news\<close>
  returns the article it finds instead of the empty list.
\<close>

theorem fetch_with_retry_retries_after_empty_counterexample:
  "example_get_news ''Generative AI'' 0 = Inl (PyException ''Exception'' ''Network timeout'')
   \<and> example_get_news ''Generative AI'' 1 = Inr []
   \<and> fetch_with_retry example_get_news ''Generative AI'' 0
       = (Inr [example_article ''AI News'' ''https://a.example/1''], 3)
   \<and> GoogleNewsFetcher_fetch_news example_get_news Some 1000 ''Generative AI'' 72 new_fetcher
       = (Inr [example_article ''AI News'' ''https://a.example/1''],
          \<lparr> search_calls = 3, processed_urls = {''https://a.example/1''} \<rparr>)"
  by (simp add: GoogleNewsFetcher_fetch_news_def fetch_with_retry_def
        fetch_with_retry_loop.simps [of _ _ 3] example_get_news_def new_fetcher_def
        convert_to_news_articles_def example_article_def)

end
